theory Spec2Isabelle
  imports Main "HOL-Library.Char_ord" "HOL-Library.List_Lexorder"
begin

section \<open>GitHubCity: errors and constants\<close>

text \<open>
  The exceptions the methods of \<open>GitHubCity\<close> can raise. \<open>Exception\<close> carries the
  message of the constructor's explicit \<open>raise Exception(...)\<close>; the others are the
  built-in exceptions of the interpreter. \<open>RecursionError\<close> is raised when the call
  stack passes the interpreter's recursion limit.
\<close>

datatype error =
    Exception string
  | AttributeError
  | ValueError
  | TypeError
  | UnboundLocalError
  | RecursionError

text \<open>The result ceiling of the search endpoint, the literal 1000 of \<open>_validInterval\<close>.\<close>

definition CAP :: int where
  "CAP = 1000"

section \<open>Interval partitioning: \<open>_validInterval\<close>\<close>

text \<open>
  A \<open>datetime.date\<close> is modelled by its day number (an \<open>int\<close>), and the formatted
  pair appended to \<open>_intervals\<close> by the pair of day numbers (\<open>strftime("%Y-%m-%d")\<close> is
  injective on dates). The answer of the search endpoint, \<open>data["total_count"]\<close> for the
  query of a range, is the parameter \<open>probe\<close>: a range gets the same answer each time
  it is asked for.

  \<open>finish - start\<close> is a \<open>timedelta\<close> of whole days; halving it gives a \<open>timedelta\<close>
  whose \<open>days\<close> field is the floor of half the number of days, and adding a
  \<open>timedelta\<close> to a \<open>date\<close> uses the \<open>days\<close> field only. So \<open>middle\<close> is
  \<open>start + (finish - start) div 2\<close>, with the floor division of \<open>int\<close>.
\<close>

definition middle :: "int \<Rightarrow> int \<Rightarrow> int" where
  "middle start finish = start + (finish - start) div 2"

text \<open>
  The method calls itself twice, left half first, and appends to \<open>_intervals\<close>; the list
  is passed through. The first argument is the number of stack frames left before the
  interpreter raises \<open>RecursionError\<close>: each call uses one frame, and both recursive
  calls run one frame deeper than their caller.
\<close>

fun validInterval ::
  "(int \<Rightarrow> int \<Rightarrow> int) \<Rightarrow> nat \<Rightarrow> int \<Rightarrow> int \<Rightarrow> (int \<times> int) list \<Rightarrow> error + (int \<times> int) list"
where
  "validInterval probe 0 start finish intervals = Inl RecursionError"
| "validInterval probe (Suc depth) start finish intervals =
     (if probe start finish \<ge> 1000 then
        (case validInterval probe depth start (middle start finish) intervals of
           Inl e \<Rightarrow> Inl e
         | Inr intervals' \<Rightarrow> validInterval probe depth (middle start finish) finish intervals')
      else Inr (intervals @ [(start, finish)]))"

text \<open>
  \<open>tiles start finish leaves\<close>: the leaves, read left to right, lead from \<open>start\<close> to
  \<open>finish\<close>: the first begins at \<open>start\<close>, each one ends where the next begins, the
  last ends at \<open>finish\<close>, and none is reversed.
\<close>

fun tiles :: "int \<Rightarrow> int \<Rightarrow> (int \<times> int) list \<Rightarrow> bool" where
  "tiles start finish [] = False"
| "tiles start finish [(a, b)] = (a = start \<and> b = finish \<and> a \<le> b)"
| "tiles start finish ((a, b) # rest) = (a = start \<and> a \<le> b \<and> tiles b finish rest)"

definition below_cap :: "(int \<Rightarrow> int \<Rightarrow> int) \<Rightarrow> (int \<times> int) list \<Rightarrow> bool" where
  "below_cap probe leaves = list_all (\<lambda>(a, b). probe a b < CAP) leaves"

text \<open>Every range of at most one day inside \<open>start .. finish\<close> is under the ceiling.\<close>

definition short_ranges_below_cap :: "(int \<Rightarrow> int \<Rightarrow> int) \<Rightarrow> int \<Rightarrow> int \<Rightarrow> bool" where
  "short_ranges_below_cap probe start finish =
     (\<forall>a b. start \<le> a \<and> a \<le> b \<and> b \<le> finish \<and> b - a \<le> 1 \<longrightarrow> probe a b < CAP)"

section \<open>The instance: constructor, \<open>readConfig\<close>, \<open>_addUser\<close>\<close>

text \<open>
  Modelled from the spec: the class \<open>GitHubUser\<close> (module \<open>GitHubUser\<close>, imported by
  \<open>GitHubCity.py\<close> but not among the sources). An entity record carries the name it was
  created with, a location string (possibly empty) and the metrics the getters used by
  \<open>getSortUsers\<close> return. What \<open>getData\<close> reads from the detail endpoint for a name is
  the parameter \<open>fetch\<close> of the functions below.
\<close>

record GitHubUser =
  name :: string
  location :: string
  contributions :: int
  longestStreak :: int
  currentStreak :: int
  language :: string
  followers :: int
  join :: string
  organizations :: int
  numberOfRepositories :: int
  stars :: int

text \<open>\<open>myNewUser = GitHubUser(new_user); myNewUser.getData()\<close>\<close>

definition GitHubUser_getData :: "(string \<Rightarrow> GitHubUser) \<Rightarrow> string \<Rightarrow> GitHubUser" where
  "GitHubUser_getData fetch new_user = (fetch new_user)\<lparr>name := new_user\<rparr>"

text \<open>
  The persisted configuration \<open>readConfig\<close> reads: a dictionary with the keys below.
  Dates are day numbers, as in \<open>validInterval\<close>.
\<close>

record config =
  cfg_name :: "string option"
  cfg_intervals :: "(int \<times> int) list"
  cfg_last_date :: int
  cfg_locations :: "string list"
  cfg_excludedUsers :: "string list"
  cfg_excludedLocations :: "string list"

text \<open>
  The attributes of a \<open>GitHubCity\<close> object. An attribute that a method can find unset
  is an \<open>option\<close>, \<open>None\<close> meaning that the object has no such attribute:
  \<open>_excluded\<close> and \<open>_excludedLocations\<close> are assigned on the constructor's
  \<open>else\<close> branch only, \<open>_intervals\<close> and \<open>_lastDay\<close> by \<open>readConfig\<close> and
  \<open>calculateBestIntervals\<close> only. \<open>city\<close> is \<open>None\<close> for Python's \<open>None\<close>.
  The two locks are \<open>True\<close> while held. \<open>names\<close> is the queue, oldest first.
  \<open>detail_requests\<close> is not an attribute: it records, in order, the names for which
  \<open>getData\<close> was called, that is the requests made to the detail endpoint. The logger
  and the set of threads are left out.
\<close>

record GitHubCity =
  githubID :: string
  githubSecret :: string
  city :: "string option"
  locations :: "string list"
  urlLocations :: string
  excluded :: "string set option"
  excludedLocations :: "string set option"
  intervals :: "(int \<times> int) list option"
  lastDay :: "int option"
  names :: "string list"
  myusers :: "string set"
  dataUsers :: "GitHubUser list"
  fin :: bool
  lockGetUser :: bool
  lockReadAddUser :: bool
  detail_requests :: "string list"

text \<open>
  \<open>_addLocationsToURL\<close> ignores its argument and reads \<open>self._locations\<close>.
  \<open>urllib.parse.quote\<close> is the parameter \<open>quote\<close>.
\<close>

definition addLocationsToURL :: "(string \<Rightarrow> string) \<Rightarrow> GitHubCity \<Rightarrow> GitHubCity" where
  "addLocationsToURL quote self =
     self\<lparr>urlLocations := concat (map (\<lambda>l. ''+location:'' @ quote l) (locations self))\<rparr>"

text \<open>
  \<open>for e in xs: attr.add(e)\<close> on an attribute that may be unset: the attribute is
  looked up at each iteration, so an unset attribute raises at the first element and an
  empty list never looks it up.
\<close>

fun add_each :: "string set option \<Rightarrow> string list \<Rightarrow> error + string set option" where
  "add_each attr [] = Inr attr"
| "add_each attr (e # es) =
     (case attr of
        None \<Rightarrow> Inl AttributeError
      | Some S \<Rightarrow> add_each (Some (insert e S)) es)"

definition readConfig :: "(string \<Rightarrow> string) \<Rightarrow> config \<Rightarrow> GitHubCity \<Rightarrow> error + GitHubCity" where
  "readConfig quote cfg self =
     (let self1 = self\<lparr>city := cfg_name cfg, intervals := Some (cfg_intervals cfg),
                        lastDay := Some (cfg_last_date cfg), locations := cfg_locations cfg\<rparr>
      in case add_each (excluded self1) (cfg_excludedUsers cfg) of
           Inl e \<Rightarrow> Inl e
         | Inr ex \<Rightarrow>
             (case add_each (excludedLocations self1) (cfg_excludedLocations cfg) of
                Inl e \<Rightarrow> Inl e
              | Inr exl \<Rightarrow>
                  Inr (addLocationsToURL quote
                         (self1\<lparr>excluded := ex, excludedLocations := exl\<rparr>))))"

text \<open>
  The object as \<open>__init__\<close> finds it after the two credential checks: the credentials
  are stored and no other attribute exists. The non-optional fields are placeholders
  that the constructor assigns before any method reads them.
\<close>

definition blank :: "string \<Rightarrow> string \<Rightarrow> GitHubCity" where
  "blank gid secret =
     \<lparr>githubID = gid, githubSecret = secret, city = None, locations = [], urlLocations = [],
      excluded = None, excludedLocations = None, intervals = None, lastDay = None,
      names = [], myusers = {}, dataUsers = [], fin = False,
      lockGetUser = False, lockReadAddUser = False, detail_requests = []\<rparr>"

text \<open>
  Lines 120 to 132 of the constructor, common to both branches. \<open>debug\<close> only
  configures logging and is left out.
\<close>

definition init_rest :: "(string \<Rightarrow> string) \<Rightarrow> GitHubCity \<Rightarrow> GitHubCity" where
  "init_rest quote self =
     (addLocationsToURL quote (self\<lparr>names := [], myusers := {}, dataUsers := []\<rparr>))
       \<lparr>fin := False, lockGetUser := False, lockReadAddUser := False\<rparr>"

text \<open>Python's truth value of an optional list or string: \<open>None\<close> and the empty one are false.\<close>

fun truthy :: "'a list option \<Rightarrow> bool" where
  "truthy None = False"
| "truthy (Some xs) = (xs \<noteq> [])"

text \<open>
  \<open>__init__(githubID, githubSecret, config, city, locations, excludedUsers,
  excludedLocations)\<close>. An argument left at its default \<open>None\<close> is \<open>None\<close> here.
  A \<open>config\<close> dictionary holding the keys of a persisted state is not empty, hence
  true in \<open>if config\<close>.
\<close>

definition init ::
  "(string \<Rightarrow> string) \<Rightarrow> string option \<Rightarrow> string option \<Rightarrow> config option \<Rightarrow> string option \<Rightarrow>
   string list option \<Rightarrow> string list option \<Rightarrow> string list option \<Rightarrow> error + GitHubCity"
where
  "init quote gid secret cfg city_arg locations_arg excludedUsers_arg excludedLocations_arg =
     (case gid of
        None \<Rightarrow> Inl (Exception ''No GitHub ID inserted'')
      | Some gid' \<Rightarrow>
     (case secret of
        None \<Rightarrow> Inl (Exception ''No GitHub Secret inserted'')
      | Some secret' \<Rightarrow>
     (case cfg of
        Some c \<Rightarrow>
          (case readConfig quote c (blank gid' secret') of
             Inl e \<Rightarrow> Inl e
           | Inr self \<Rightarrow> Inr (init_rest quote self))
      | None \<Rightarrow>
          (let self1 = (blank gid' secret')
                 \<lparr>city := city_arg,
                  locations :=
                    (if truthy locations_arg then the locations_arg
                     else if truthy city_arg then [] @ [the city_arg] else [])\<rparr>;
               self2 = self1
                 \<lparr>excluded :=
                    Some (if truthy excludedUsers_arg then set (the excludedUsers_arg) else {})\<rparr>;
               self3 = self2
                 \<lparr>excludedLocations :=
                    Some (if truthy excludedLocations_arg
                          then set (the excludedLocations_arg) else {})\<rparr>
           in Inr (init_rest quote self3)))))"

text \<open>
  Python's \<open>s in t\<close> on strings: \<open>s\<close> occurs in \<open>t\<close> as a contiguous substring.
\<close>

fun starts_with :: "string \<Rightarrow> string \<Rightarrow> bool" where
  "starts_with [] t = True"
| "starts_with (c # s) [] = False"
| "starts_with (c # s) (d # t) = (c = d \<and> starts_with s t)"

fun str_in :: "string \<Rightarrow> string \<Rightarrow> bool" where
  "str_in s [] = (s = [])"
| "str_in s (d # t) = (starts_with s (d # t) \<or> str_in s t)"

text \<open>\<open>any(s in userLoc for s in self._excludedLocations)\<close>\<close>

definition location_excluded :: "string set \<Rightarrow> string \<Rightarrow> bool" where
  "location_excluded exl userLoc = (\<exists>s\<in>exl. str_in s userLoc)"

text \<open>
  How a call ends: it returns, it raises, or it never comes back because it waits for
  a lock that is held and that nothing will release.
\<close>

datatype outcome = Returned | Raised error | Blocked

text \<open>
  \<open>_addUser\<close>, run from its first line to its last with no other thread in between.
  The state returned with \<open>Raised\<close> is the one the exception leaves behind.
\<close>

definition addUser :: "(string \<Rightarrow> GitHubUser) \<Rightarrow> string \<Rightarrow> GitHubCity \<Rightarrow> outcome \<times> GitHubCity" where
  "addUser fetch new_user self =
     (if lockReadAddUser self then (Blocked, self)
      else
        let self1 = self\<lparr>lockReadAddUser := True\<rparr> in
        if new_user \<in> myusers self1 then (Returned, self1\<lparr>lockReadAddUser := False\<rparr>)
        else
          (case excluded self1 of
             None \<Rightarrow> (Raised AttributeError, self1)
           | Some ex \<Rightarrow>
               if new_user \<in> ex then (Returned, self1\<lparr>lockReadAddUser := False\<rparr>)
               else
                 let self2 = self1\<lparr>lockReadAddUser := False\<rparr>;
                     self3 = self2\<lparr>myusers := insert new_user (myusers self2)\<rparr>;
                     myNewUser = GitHubUser_getData fetch new_user;
                     self4 = self3\<lparr>detail_requests := detail_requests self3 @ [new_user]\<rparr>;
                     userLoc = location myNewUser
                 in (case excludedLocations self4 of
                       None \<Rightarrow> (Raised AttributeError, self4)
                     | Some exl \<Rightarrow>
                         if \<not> location_excluded exl userLoc
                         then (Returned, self4\<lparr>dataUsers := dataUsers self4 @ [myNewUser]\<rparr>)
                         else (Returned, self4))))"

text \<open>
  Calls of \<open>_addUser\<close> made one after the other on the same object, each on the
  state the one before has left.
\<close>

fun addUsers :: "(string \<Rightarrow> GitHubUser) \<Rightarrow> string list \<Rightarrow> GitHubCity \<Rightarrow> GitHubCity" where
  "addUsers fetch [] self = self"
| "addUsers fetch (u # us) self = addUsers fetch us (snd (addUser fetch u self))"

text \<open>The records of the result list with a given name, and the detail requests made for it.\<close>

definition records_of :: "string \<Rightarrow> GitHubCity \<Rightarrow> GitHubUser list" where
  "records_of u self = filter (\<lambda>r. name r = u) (dataUsers self)"

definition requests_for :: "string \<Rightarrow> GitHubCity \<Rightarrow> string list" where
  "requests_for u self = filter (\<lambda>v. v = u) (detail_requests self)"

section \<open>The worker threads: \<open>_processUsers\<close> and \<open>_addUser\<close> step by step\<close>

text \<open>
  Where a worker thread stands. Another thread can run between any two of these
  points, so each names one action on the shared object:
  \<^item> \<open>Wait\<close>: the first loop, \<open>while self._names.empty(): pass\<close>;
  \<^item> \<open>LoopTest\<close>: the test of \<open>while not self._fin or not self._names.empty()\<close>;
  \<^item> \<open>GetAcquire\<close>, \<open>GetTry\<close>: \<open>self._lockGetUser.acquire()\<close> and
    \<open>self._names.get(False)\<close>;
  \<^item> \<open>GetEmptyRelease\<close>: the handler of \<open>queue.Empty\<close>, which releases and returns;
  \<^item> \<open>GetRelease u\<close>: the \<open>else\<close> clause, with \<open>new_user = u\<close>;
  \<^item> \<open>AddAcquire u\<close> to \<open>AddReleaseElse u\<close>: the lines of \<open>_addUser(u)\<close>, in the
    order of the source: acquire, test, then either release, add to \<open>_myusers\<close>,
    \<open>getData\<close>, location filter and append, or the release of the \<open>else\<close> branch;
  \<^item> \<open>Exited\<close>: the thread's function has returned; \<open>Crashed e\<close>: it has raised.
\<close>

datatype pc =
    Wait
  | LoopTest
  | GetAcquire
  | GetTry
  | GetEmptyRelease
  | GetRelease string
  | AddAcquire string
  | AddTest string
  | AddReleaseThen string
  | AddInsert string
  | AddFetch string
  | AddFilter string
  | AddReleaseElse string
  | Exited
  | Crashed error

text \<open>
  One action of a worker. A thread that waits for a held lock, or spins in the first
  loop, stays where it is.
\<close>

fun processUsers_step :: "(string \<Rightarrow> GitHubUser) \<Rightarrow> pc \<Rightarrow> GitHubCity \<Rightarrow> pc \<times> GitHubCity" where
  "processUsers_step fetch Wait self = (if names self = [] then (Wait, self) else (LoopTest, self))"
| "processUsers_step fetch LoopTest self =
     (if \<not> fin self \<or> names self \<noteq> [] then (GetAcquire, self) else (Exited, self))"
| "processUsers_step fetch GetAcquire self =
     (if lockGetUser self then (GetAcquire, self) else (GetTry, self\<lparr>lockGetUser := True\<rparr>))"
| "processUsers_step fetch GetTry self =
     (case names self of
        [] \<Rightarrow> (GetEmptyRelease, self)
      | new_user # rest \<Rightarrow> (GetRelease new_user, self\<lparr>names := rest\<rparr>))"
| "processUsers_step fetch GetEmptyRelease self = (Exited, self\<lparr>lockGetUser := False\<rparr>)"
| "processUsers_step fetch (GetRelease u) self = (AddAcquire u, self\<lparr>lockGetUser := False\<rparr>)"
| "processUsers_step fetch (AddAcquire u) self =
     (if lockReadAddUser self then (AddAcquire u, self)
      else (AddTest u, self\<lparr>lockReadAddUser := True\<rparr>))"
| "processUsers_step fetch (AddTest u) self =
     (if u \<in> myusers self then (AddReleaseElse u, self)
      else (case excluded self of
              None \<Rightarrow> (Crashed AttributeError, self)
            | Some ex \<Rightarrow> if u \<in> ex then (AddReleaseElse u, self) else (AddReleaseThen u, self)))"
| "processUsers_step fetch (AddReleaseThen u) self = (AddInsert u, self\<lparr>lockReadAddUser := False\<rparr>)"
| "processUsers_step fetch (AddInsert u) self = (AddFetch u, self\<lparr>myusers := insert u (myusers self)\<rparr>)"
| "processUsers_step fetch (AddFetch u) self =
     (AddFilter u, self\<lparr>detail_requests := detail_requests self @ [u]\<rparr>)"
| "processUsers_step fetch (AddFilter u) self =
     (case excludedLocations self of
        None \<Rightarrow> (Crashed AttributeError, self)
      | Some exl \<Rightarrow>
          if \<not> location_excluded exl (location (GitHubUser_getData fetch u))
          then (LoopTest, self\<lparr>dataUsers := dataUsers self @ [GitHubUser_getData fetch u]\<rparr>)
          else (LoopTest, self))"
| "processUsers_step fetch (AddReleaseElse u) self = (LoopTest, self\<lparr>lockReadAddUser := False\<rparr>)"
| "processUsers_step fetch Exited self = (Exited, self)"
| "processUsers_step fetch (Crashed e) self = (Crashed e, self)"

text \<open>
  The object with its worker threads. \<open>_launchThreads(numThreads)\<close> starts each
  thread at the first line of \<open>_processUsers\<close>.
\<close>

record pool =
  shared :: GitHubCity
  workers :: "pc list"

definition launchThreads :: "nat \<Rightarrow> GitHubCity \<Rightarrow> pool" where
  "launchThreads numThreads self = \<lparr>shared = self, workers = replicate numThreads Wait\<rparr>"

text \<open>
  What can happen next: worker \<open>i\<close> performs its next action, or the main thread
  performs one of the two things \<open>getCityUsers\<close> and \<open>_getPeriodUsers\<close> do to the
  shared object while the workers run: \<open>self._names.put(login)\<close> and
  \<open>self._fin = True\<close>. A schedule is a list of such events.
\<close>

datatype event = Worker nat | Put string | Finish

fun pool_step :: "(string \<Rightarrow> GitHubUser) \<Rightarrow> event \<Rightarrow> pool \<Rightarrow> pool" where
  "pool_step fetch (Worker i) p =
     (if i < length (workers p)
      then (case processUsers_step fetch (workers p ! i) (shared p) of
              (pc', self') \<Rightarrow> \<lparr>shared = self', workers = (workers p)[i := pc']\<rparr>)
      else p)"
| "pool_step fetch (Put login) p =
     p\<lparr>shared := (shared p)\<lparr>names := names (shared p) @ [login]\<rparr>\<rparr>"
| "pool_step fetch Finish p = p\<lparr>shared := (shared p)\<lparr>fin := True\<rparr>\<rparr>"

definition run :: "(string \<Rightarrow> GitHubUser) \<Rightarrow> event list \<Rightarrow> pool \<Rightarrow> pool" where
  "run fetch schedule p = fold (pool_step fetch) schedule p"

text \<open>One thread running alone for a number of actions.\<close>

fun steps :: "(string \<Rightarrow> GitHubUser) \<Rightarrow> nat \<Rightarrow> pc \<times> GitHubCity \<Rightarrow> pc \<times> GitHubCity" where
  "steps fetch 0 c = c"
| "steps fetch (Suc n) (pc, self) = steps fetch n (processUsers_step fetch pc self)"

text \<open>
  The name for which a worker has passed the test of \<open>_addUser\<close> and not yet finished
  the call.
\<close>

fun past_test :: "pc \<Rightarrow> string option" where
  "past_test (AddReleaseThen u) = Some u"
| "past_test (AddInsert u) = Some u"
| "past_test (AddFetch u) = Some u"
| "past_test (AddFilter u) = Some u"
| "past_test other = None"

text \<open>
  The two exclusion sets are \<open>ex\<close> and \<open>exl\<close>, no detail request was made for an
  excluded name, no record has an excluded name or an excluded location, and no worker
  is past the test with an excluded name.
\<close>

definition exclusions_respected :: "string set \<Rightarrow> string set \<Rightarrow> pool \<Rightarrow> bool" where
  "exclusions_respected ex exl p =
     (excluded (shared p) = Some ex \<and> excludedLocations (shared p) = Some exl
      \<and> list_all (\<lambda>u. u \<notin> ex) (detail_requests (shared p))
      \<and> list_all (\<lambda>r. name r \<notin> ex \<and> \<not> location_excluded exl (location r))
           (dataUsers (shared p))
      \<and> list_all (\<lambda>pc. past_test pc \<notin> Some ` ex) (workers p))"

text \<open>No two records have the same name, and every record's name is in \<open>_myusers\<close>.\<close>

definition records_unique :: "GitHubCity \<Rightarrow> bool" where
  "records_unique self =
     (distinct (map name (dataUsers self)) \<and> name ` set (dataUsers self) \<subseteq> myusers self)"

text \<open>A detail record with a given location and no activity, for the scenarios below.\<close>

definition profile :: "string \<Rightarrow> string \<Rightarrow> GitHubUser" where
  "profile login loc =
     \<lparr>name = login, location = loc, contributions = 0, longestStreak = 0, currentStreak = 0,
      language = [], followers = 0, join = [], organizations = 0, numberOfRepositories = 0,
      stars = 0\<rparr>"

section \<open>Requests: \<open>_readAPI\<close>\<close>

text \<open>
  What \<open>urllib.request.urlopen\<close> does at one call:
  \<^item> \<open>HTTPResponse code body\<close>: it returns a response with this status code and body;
  \<^item> \<open>HTTPError code reset now_sec\<close>: it raises an error that has \<open>getheader\<close> and
    \<open>code\<close>; \<open>reset\<close> is the number in the header \<open>X-RateLimit-Reset\<close> (\<open>None\<close>
    when the header is absent) and \<open>now_sec\<close> is what the clock reads in the handler;
  \<^item> \<open>URLError\<close>: it raises an error with neither \<open>getheader\<close> nor \<open>code\<close>.
\<close>

datatype response =
    HTTPResponse int string
  | HTTPError int "int option" int
  | URLError

text \<open>What the method does to the outside: a request to a URL, a sleep of some seconds.\<close>

datatype effect = Request string | Sleep int

text \<open>
  After the loop: \<open>json.loads(response.read().decode('utf-8'))\<close>. \<open>response\<close> is
  the local variable, unbound when no call of \<open>urlopen\<close> has returned. \<open>json.loads\<close>
  is the parameter \<open>loads\<close>, \<open>None\<close> where it raises.
\<close>

definition read_response :: "(string \<Rightarrow> 'j option) \<Rightarrow> string option \<Rightarrow> error + 'j" where
  "read_response loads response =
     (case response of
        None \<Rightarrow> Inl UnboundLocalError
      | Some body \<Rightarrow> (case loads body of None \<Rightarrow> Inl ValueError | Some data \<Rightarrow> Inr data))"

definition after :: "effect list \<Rightarrow> effect list \<times> 'r \<Rightarrow> effect list \<times> 'r" where
  "after first rest = (first @ fst rest, snd rest)"

text \<open>
  The loop \<open>while code != 200\<close>, one iteration for each answer of the server, given in
  order. The result is the effects in order and how the method ends: \<open>Some (Inr data)\<close>
  when it returns, \<open>Some (Inl e)\<close> when it raises, \<open>None\<close> when the listed answers are
  used up and the loop is still running. \<open>int(None)\<close> raises \<open>TypeError\<close>,
  \<open>time.sleep\<close> of a negative number raises \<open>ValueError\<close>, and \<open>e.code\<close> on an
  error without that attribute raises \<open>AttributeError\<close>.
\<close>

fun readAPI_loop ::
  "(string \<Rightarrow> 'j option) \<Rightarrow> string \<Rightarrow> string option \<Rightarrow> response list \<Rightarrow>
   effect list \<times> (error + 'j) option"
where
  "readAPI_loop loads url response [] = ([], None)"
| "readAPI_loop loads url response (HTTPResponse code body # answers) =
     (if code \<noteq> 200 then after [Request url] (readAPI_loop loads url (Some body) answers)
      else ([Request url], Some (read_response loads (Some body))))"
| "readAPI_loop loads url response (HTTPError code reset now_sec # answers) =
     (case reset of
        None \<Rightarrow> ([Request url], Some (Inl TypeError))
      | Some reset' \<Rightarrow>
          if reset' - now_sec < 0 then ([Request url], Some (Inl ValueError))
          else if code \<noteq> 200
          then after [Request url, Sleep (reset' - now_sec)]
                 (readAPI_loop loads url response answers)
          else ([Request url, Sleep (reset' - now_sec)], Some (read_response loads response)))"
| "readAPI_loop loads url response (URLError # answers) =
     ([Request url], Some (Inl AttributeError))"

text \<open>\<open>code = 0\<close>, so the loop is entered, and \<open>response\<close> is unbound.\<close>

definition readAPI ::
  "(string \<Rightarrow> 'j option) \<Rightarrow> string \<Rightarrow> response list \<Rightarrow> effect list \<times> (error + 'j) option"
where
  "readAPI loads url answers = readAPI_loop loads url None answers"

section \<open>Sorting: \<open>getSortUsers\<close>\<close>

text \<open>
  \<open>list.sort(key=..., reverse=True)\<close>: descending by key, and elements with equal
  keys keep their original order. \<open>sort_key\<close> is a stable ascending sort.
\<close>

definition sort_reverse :: "('a \<Rightarrow> 'k::linorder) \<Rightarrow> 'a list \<Rightarrow> 'a list" where
  "sort_reverse key xs = rev (sort_key key (rev xs))"

definition sorted_by :: "(GitHubUser \<Rightarrow> 'k::linorder) \<Rightarrow> GitHubCity \<Rightarrow> GitHubUser list option \<times> GitHubCity" where
  "sorted_by key self =
     (let self' = self\<lparr>dataUsers := sort_reverse key (dataUsers self)\<rparr>
      in (Some (dataUsers self'), self'))"

text \<open>The value returned (\<open>None\<close> for Python's \<open>None\<close>) and the object afterwards.\<close>

definition getSortUsers :: "string \<Rightarrow> GitHubCity \<Rightarrow> GitHubUser list option \<times> GitHubCity" where
  "getSortUsers order self =
     (if order = ''contributions'' then sorted_by contributions self
      else if order = ''name'' then sorted_by name self
      else if order = ''lstreak'' then sorted_by longestStreak self
      else if order = ''cstreak'' then sorted_by currentStreak self
      else if order = ''language'' then sorted_by language self
      else if order = ''followers'' then sorted_by followers self
      else if order = ''join'' then sorted_by join self
      else if order = ''organizations'' then sorted_by organizations self
      else if order = ''respositories'' then sorted_by numberOfRepositories self
      else if order = ''stars'' then sorted_by stars self
      else (None, self))"

section \<open>Properties of the partitioning\<close>

lemma tiles_append:
  "tiles s m xs \<Longrightarrow> tiles m f ys \<Longrightarrow> tiles s f (xs @ ys)"
proof (induction s m xs rule: tiles.induct)
  case (1 start finish)
  then show ?case by simp
next
  case (2 start finish a b)
  then show ?case by (cases ys) auto
next
  case (3 start finish a b v va)
  then show ?case by simp
qed

lemma middle_bounds:
  "s \<le> f \<Longrightarrow> s \<le> middle s f \<and> middle s f \<le> f"
  by (simp add: middle_def)

lemma middle_halves:
  assumes "f - s \<le> 2 * n" "0 \<le> n"
  shows "middle s f - s \<le> n" "f - middle s f \<le> n"
  using assms by (simp_all add: middle_def)

lemma short_ranges_sub:
  "short_ranges_below_cap probe s f \<Longrightarrow> s \<le> s' \<Longrightarrow> f' \<le> f \<Longrightarrow>
   short_ranges_below_cap probe s' f'"
  by (auto simp: short_ranges_below_cap_def)

lemma validInterval_total:
  "s \<le> f \<Longrightarrow> short_ranges_below_cap probe s f \<Longrightarrow> f - s \<le> 2 ^ k \<Longrightarrow> k < depth \<Longrightarrow>
   \<exists>leaves. validInterval probe depth s f ivs = Inr (ivs @ leaves)
           \<and> tiles s f leaves \<and> below_cap probe leaves"
proof (induction depth arbitrary: s f ivs k)
  case 0
  then show ?case by simp
next
  case (Suc depth)
  show ?case
  proof (cases "probe s f \<ge> 1000")
    case False
    then show ?thesis using Suc.prems(1) by (simp add: below_cap_def CAP_def)
  next
    case True
    have long: "\<not> f - s \<le> 1"
    proof
      assume "f - s \<le> 1"
      then have "probe s f < CAP"
        using Suc.prems(1,2) unfolding short_ranges_below_cap_def by blast
      then show False using True by (simp add: CAP_def)
    qed
    then obtain k' where k: "k = Suc k'"
      using Suc.prems(3) by (cases k) auto
    let ?m = "middle s f"
    have mb: "s \<le> ?m" "?m \<le> f" using middle_bounds [OF Suc.prems(1)] by simp_all
    have h: "?m - s \<le> 2 ^ k'" "f - ?m \<le> 2 ^ k'"
      using middle_halves [of f s "2 ^ k'"] Suc.prems(3) k by simp_all
    have kd: "k' < depth" using Suc.prems(4) k by simp
    obtain l1 where l1: "validInterval probe depth s ?m ivs = Inr (ivs @ l1)"
        "tiles s ?m l1" "below_cap probe l1"
      using Suc.IH [OF mb(1) short_ranges_sub [OF Suc.prems(2) order_refl mb(2)] h(1) kd]
      by blast
    obtain l2 where l2: "validInterval probe depth ?m f (ivs @ l1) = Inr ((ivs @ l1) @ l2)"
        "tiles ?m f l2" "below_cap probe l2"
      using Suc.IH [OF mb(2) short_ranges_sub [OF Suc.prems(2) mb(1) order_refl] h(2) kd]
      by blast
    have "validInterval probe (Suc depth) s f ivs = Inr (ivs @ (l1 @ l2))"
      using True l1(1) l2(1) by simp
    moreover have "tiles s f (l1 @ l2)" using tiles_append [OF l1(2) l2(2)] .
    moreover have "below_cap probe (l1 @ l2)" using l1(3) l2(3) by (simp add: below_cap_def)
    ultimately show ?thesis by blast
  qed
qed

lemma validInterval_error:
  "validInterval probe depth s f ivs = Inl e \<Longrightarrow> e = RecursionError"
  by (induction depth arbitrary: s f ivs) (auto split: if_splits sum.splits)

lemma validInterval_short_range_never_returns:
  "s \<le> f \<Longrightarrow> f - s \<le> 1 \<Longrightarrow> probe s f \<ge> 1000 \<Longrightarrow>
   validInterval probe depth s f ivs = Inl RecursionError"
proof (induction depth arbitrary: ivs)
  case 0
  then show ?case by simp
next
  case (Suc depth)
  have m: "middle s f = s" using Suc.prems(1,2) by (simp add: middle_def)
  show ?case
  proof (cases "validInterval probe depth s s ivs")
    case (Inl e)
    then show ?thesis
      using Suc.prems(3) m validInterval_error [OF Inl] by simp
  next
    case (Inr ivs')
    then show ?thesis
      using Suc.prems m Suc.IH [OF Suc.prems, of ivs'] by simp
  qed
qed

text \<open>
  Claim C1, as amended. For every range \<open>start \<le> finish\<close> whose probed count is at
  least \<open>CAP\<close>, if every range of at most one day inside it probes below \<open>CAP\<close>,
  and the recursion limit exceeds \<open>k\<close> where the range is at most \<open>2 ^ k\<close> days long,
  then \<open>_validInterval\<close> returns, having appended to \<open>_intervals\<close> a sequence of leaves
  that leads from \<open>start\<close> to \<open>finish\<close> (the first leaf begins at \<open>start\<close>, each
  leaf ends at the day the next one begins at, the last ends at \<open>finish\<close>) and every
  leaf probes below \<open>CAP\<close>.
\<close>

theorem validInterval_partitions:
  assumes "start \<le> finish"
    and "CAP \<le> probe start finish"
    and "short_ranges_below_cap probe start finish"
    and "finish - start \<le> 2 ^ k"
    and "k < depth"
  shows "\<exists>leaves. validInterval probe depth start finish ivs = Inr (ivs @ leaves)
           \<and> tiles start finish leaves \<and> below_cap probe leaves"
  using validInterval_total [OF assms(1) assms(3) assms(4) assms(5)] .

theorem validInterval_partitions_witness:
  "(0::int) \<le> 4
   \<and> CAP \<le> (\<lambda>a b :: int. if 4 \<le> b - a then 2500 else 10) 0 4
   \<and> short_ranges_below_cap (\<lambda>a b :: int. if 4 \<le> b - a then 2500 else 10) 0 4
   \<and> (4::int) - 0 \<le> 2 ^ 2
   \<and> (2::nat) < 3
   \<and> (\<exists>leaves. validInterval (\<lambda>a b :: int. if 4 \<le> b - a then 2500 else 10) 3 0 4 [] = Inr ([] @ leaves)
           \<and> tiles 0 4 leaves \<and> below_cap (\<lambda>a b :: int. if 4 \<le> b - a then 2500 else 10) leaves)"
proof -
  let ?p = "\<lambda>a b :: int. if 4 \<le> b - a then 2500 else (10::int)"
  have h1: "(0::int) \<le> 4" by simp
  have h2: "CAP \<le> ?p 0 4" by (simp add: CAP_def)
  have h3: "short_ranges_below_cap ?p 0 4"
    by (simp add: short_ranges_below_cap_def CAP_def)
  have h4: "(4::int) - 0 \<le> 2 ^ 2" by simp
  have h5: "(2::nat) < 3" by simp
  show ?thesis
    using h1 h2 h3 h4 h5 validInterval_partitions [OF h1 h2 h3 h4 h5, of "[]"] by blast
qed

text \<open>
  Claim C1 as stated fails: on the two-day range \<open>(0, 1)\<close> with a probed count of 1000
  the midpoint is \<open>0\<close>, the right half is the range itself, and no recursion limit
  lets the method return a sequence of leaves.
\<close>

theorem validInterval_partitions_counterexample:
  "CAP \<le> (\<lambda>a b :: int. 1000) (0::int) (1::int)
   \<and> \<not> (\<exists>depth leaves. validInterval (\<lambda>a b :: int. 1000) depth 0 1 [] = Inr leaves)"
  by (simp add: CAP_def validInterval_short_range_never_returns)

text \<open>
  Claim C2. A range of length 0 whose probed count is at least \<open>CAP\<close> is not accepted
  as a leaf: the midpoint is the range's own start, both halves are the range itself,
  and the recursion goes on until the interpreter's recursion limit, whatever it is.
\<close>

theorem validInterval_degenerate_range_recurses:
  "validInterval (\<lambda>a b :: int. 1000) depth 0 0 [] = Inl RecursionError"
  by (simp add: validInterval_short_range_never_returns)

section \<open>Properties of the constructor\<close>

lemma add_each_Some: "add_each (Some S) xs = Inr (Some (S \<union> set xs))"
  by (induction xs arbitrary: S) auto

lemma add_each_None: "add_each None xs = (if xs = [] then Inr None else Inl AttributeError)"
  by (cases xs) auto

lemma init_plain:
  "init quote (Some gid) (Some sec) None ci None None None =
   Inr \<lparr>githubID = gid, githubSecret = sec, city = ci,
        locations = (if truthy ci then [the ci] else []),
        urlLocations =
          concat (map (\<lambda>l. ''+location:'' @ quote l) (if truthy ci then [the ci] else [])),
        excluded = Some {}, excludedLocations = Some {}, intervals = None, lastDay = None,
        names = [], myusers = {}, dataUsers = [], fin = False,
        lockGetUser = False, lockReadAddUser = False, detail_requests = []\<rparr>"
  by (simp add: init_def Let_def init_rest_def addLocationsToURL_def blank_def)

lemma init_excluded_locations:
  "init quote (Some gid) (Some sec) None (Some c) None None (Some (l # ls)) =
   Inr \<lparr>githubID = gid, githubSecret = sec, city = Some c,
        locations = (if c = [] then [] else [c]),
        urlLocations =
          concat (map (\<lambda>l. ''+location:'' @ quote l) (if c = [] then [] else [c])),
        excluded = Some {}, excludedLocations = Some (set (l # ls)),
        intervals = None, lastDay = None,
        names = [], myusers = {}, dataUsers = [], fin = False,
        lockGetUser = False, lockReadAddUser = False, detail_requests = []\<rparr>"
  by (simp add: init_def Let_def init_rest_def addLocationsToURL_def blank_def)

lemma init_config:
  "init quote (Some gid) (Some sec) (Some c) ci lo eu el =
     (if cfg_excludedUsers c = [] \<and> cfg_excludedLocations c = []
      then Inr (init_rest quote (addLocationsToURL quote
             ((blank gid sec)\<lparr>city := cfg_name c, intervals := Some (cfg_intervals c),
                        lastDay := Some (cfg_last_date c), locations := cfg_locations c\<rparr>)))
      else Inl AttributeError)"
  by (simp add: init_def readConfig_def Let_def add_each_None blank_def)

text \<open>
  Claim C7, as amended. The constructor raises its configuration exception when the
  GitHub application id is \<open>None\<close>, and when the id is given and the secret is
  \<open>None\<close>, whatever the other arguments are and before it does anything else. With
  both given and no persisted config, it does not raise, whatever the city and the
  locations are: an empty set of location terms is accepted.
\<close>

theorem init_raises_exactly:
  "init quote None secret cfg city_arg locs exu exl = Inl (Exception ''No GitHub ID inserted'')
   \<and> init quote (Some gid) None cfg city_arg locs exu exl
       = Inl (Exception ''No GitHub Secret inserted'')
   \<and> \<not> isl (init quote (Some gid) (Some sec) None city_arg locs exu exl)"
  by (simp add: init_def Let_def)

text \<open>
  Claim C7 as stated fails: with id and secret given and neither city nor locations,
  the constructor returns an object whose list of location terms is empty.
\<close>

theorem init_empty_target_counterexample:
  "map_sum id locations (init id (Some ''id'') (Some ''secret'') None None None None None)
     = Inr []"
  by (simp add: init_plain)

section \<open>Properties of \<open>_addUser\<close>\<close>

lemma addUser_unset:
  "\<not> lockReadAddUser self \<Longrightarrow> new_user \<notin> myusers self \<Longrightarrow> excluded self = None \<Longrightarrow>
   addUser fetch new_user self = (Raised AttributeError, self\<lparr>lockReadAddUser := True\<rparr>)"
  by (simp add: addUser_def Let_def)

lemma addUser_blocked:
  "lockReadAddUser self \<Longrightarrow> addUser fetch new_user self = (Blocked, self)"
  by (simp add: addUser_def)

text \<open>
  Claim C9, as amended. With id and secret given and a persisted config, the
  constructor raises \<open>AttributeError\<close> when the config's list of excluded users or of
  excluded locations is not empty. When both are empty it returns an object on which
  neither \<open>_excluded\<close> nor \<open>_excludedLocations\<close> exists, and the first call of
  \<open>_addUser\<close> on that object raises \<open>AttributeError\<close>, whatever the name. That call
  raises between \<open>acquire\<close> and \<open>release\<close>, so it leaves the lock held, and a call
  made after it waits for the lock instead of raising.
\<close>

theorem config_path_leaves_exclusions_unset:
  "(cfg_excludedUsers c \<noteq> [] \<or> cfg_excludedLocations c \<noteq> [] \<longrightarrow>
      init quote (Some gid) (Some sec) (Some c) ci lo eu el = Inl AttributeError)
   \<and> (cfg_excludedUsers c = [] \<and> cfg_excludedLocations c = [] \<longrightarrow>
      (\<exists>self. init quote (Some gid) (Some sec) (Some c) ci lo eu el = Inr self
          \<and> excluded self = None \<and> excludedLocations self = None
          \<and> (\<forall>new_user other.
                fst (addUser fetch new_user self) = Raised AttributeError
                \<and> fst (addUser fetch other (snd (addUser fetch new_user self))) = Blocked)))"
  by (auto simp: init_config init_rest_def addLocationsToURL_def blank_def addUser_unset
        addUser_blocked)

theorem config_path_leaves_exclusions_unset_witness:
  "init id (Some ''id'') (Some ''secret'')
     (Some \<lparr>cfg_name = Some ''Granada'', cfg_intervals = [(0, 100)], cfg_last_date = 100,
            cfg_locations = [''Granada''], cfg_excludedUsers = [''bot''],
            cfg_excludedLocations = []\<rparr>) None None None None = Inl AttributeError
   \<and> (\<exists>self. init id (Some ''id'') (Some ''secret'')
         (Some \<lparr>cfg_name = Some ''Granada'', cfg_intervals = [(0, 100)], cfg_last_date = 100,
                cfg_locations = [''Granada''], cfg_excludedUsers = [],
                cfg_excludedLocations = []\<rparr>) None None None None = Inr self
          \<and> excluded self = None \<and> excludedLocations self = None
          \<and> (\<forall>new_user other.
                fst (addUser (\<lambda>u. profile u ''Granada'') new_user self) = Raised AttributeError
                \<and> fst (addUser (\<lambda>u. profile u ''Granada'') other
                         (snd (addUser (\<lambda>u. profile u ''Granada'') new_user self))) = Blocked))"
  using config_path_leaves_exclusions_unset
          [of "\<lparr>cfg_name = Some ''Granada'', cfg_intervals = [(0, 100)], cfg_last_date = 100,
                cfg_locations = [''Granada''], cfg_excludedUsers = [''bot''],
                cfg_excludedLocations = []\<rparr>"
              id "''id''" "''secret''" None None None None "\<lambda>u. profile u ''Granada''"]
        config_path_leaves_exclusions_unset
          [of "\<lparr>cfg_name = Some ''Granada'', cfg_intervals = [(0, 100)], cfg_last_date = 100,
                cfg_locations = [''Granada''], cfg_excludedUsers = [],
                cfg_excludedLocations = []\<rparr>"
              id "''id''" "''secret''" None None None None "\<lambda>u. profile u ''Granada''"]
  by simp

text \<open>
  Claim C9 as stated fails for a call that follows another one. On the object built
  from a config with both lists empty, the call for \<open>ana\<close> raises and leaves the lock
  held; the call for \<open>ben\<close> after it does not raise \<open>AttributeError\<close>: it waits for
  the lock.
\<close>

theorem addUser_later_call_counterexample:
  "case init id (Some ''id'') (Some ''secret'')
          (Some \<lparr>cfg_name = Some ''Granada'', cfg_intervals = [(0, 100)], cfg_last_date = 100,
                 cfg_locations = [''Granada''], cfg_excludedUsers = [],
                 cfg_excludedLocations = []\<rparr>) None None None None of
     Inl e \<Rightarrow> False
   | Inr self \<Rightarrow>
       fst (addUser (\<lambda>u. profile u ''Granada'') ''ben''
              (snd (addUser (\<lambda>u. profile u ''Granada'') ''ana'' self))) = Blocked"
  by (simp add: init_config init_rest_def addLocationsToURL_def blank_def addUser_unset
        addUser_blocked)

text \<open>
  Once a name is in \<open>_myusers\<close> it stays there, and no call made afterwards, for
  any name, adds a record or a detail request for it.
\<close>

lemma addUser_seen_unchanged:
  assumes "u \<in> myusers self"
  shows "u \<in> myusers (snd (addUser fetch v self))
       \<and> records_of u (snd (addUser fetch v self)) = records_of u self
       \<and> requests_for u (snd (addUser fetch v self)) = requests_for u self"
  using assms
  by (auto simp: addUser_def Let_def records_of_def requests_for_def GitHubUser_getData_def
           split: option.splits)

lemma addUsers_seen_unchanged:
  "u \<in> myusers self \<Longrightarrow>
   u \<in> myusers (addUsers fetch us self)
   \<and> records_of u (addUsers fetch us self) = records_of u self
   \<and> requests_for u (addUsers fetch us self) = requests_for u self"
proof (induction us arbitrary: self)
  case Nil
  then show ?case by simp
next
  case (Cons v us)
  from addUser_seen_unchanged [OF Cons.prems, of fetch v]
  have a: "u \<in> myusers (snd (addUser fetch v self))"
     and b: "records_of u (snd (addUser fetch v self)) = records_of u self"
     and c: "requests_for u (snd (addUser fetch v self)) = requests_for u self"
    by simp_all
  from Cons.IH [OF a] b c show ?case by simp
qed

text \<open>
  Calls that run one after the other. When \<open>_addUser\<close> processes a name that is
  neither seen nor excluded, and the location of its detail record contains a string of
  the location-exclusion set, the call makes the detail request, appends no record, and
  leaves the name in \<open>_myusers\<close>. A second call for the same name then returns with
  the object unchanged, and whatever calls follow, one after the other, the result list
  never gets a record for the name and no further detail request is made for it.
\<close>

lemma addUser_excluded_location:
  assumes "\<not> lockReadAddUser self"
    and "excluded self = Some ex"
    and "excludedLocations self = Some exl"
    and "new_user \<notin> myusers self"
    and "new_user \<notin> ex"
    and "location_excluded exl (location (GitHubUser_getData fetch new_user))"
  shows "\<exists>self'. addUser fetch new_user self = (Returned, self')
           \<and> dataUsers self' = dataUsers self
           \<and> new_user \<in> myusers self'
           \<and> detail_requests self' = detail_requests self @ [new_user]
           \<and> addUser fetch new_user self' = (Returned, self')
           \<and> (\<forall>later. records_of new_user (addUsers fetch later self') = records_of new_user self
                 \<and> requests_for new_user (addUsers fetch later self')
                     = requests_for new_user self @ [new_user])"
proof -
  obtain self' where s: "addUser fetch new_user self = (Returned, self')"
      "dataUsers self' = dataUsers self" "new_user \<in> myusers self'"
      "detail_requests self' = detail_requests self @ [new_user]"
      "addUser fetch new_user self' = (Returned, self')"
    using assms by (simp add: addUser_def Let_def)
  have "records_of new_user self' = records_of new_user self"
    using s(2) by (simp add: records_of_def)
  moreover have "requests_for new_user self' = requests_for new_user self @ [new_user]"
    using s(4) by (simp add: requests_for_def)
  ultimately show ?thesis
    using s addUsers_seen_unchanged [OF s(3), of fetch] by auto
qed

lemma addUser_excluded_location_example:
  "let self = (blank ''id'' ''secret'')
                \<lparr>excluded := Some {''bot''}, excludedLocations := Some {''Nicaragua''}\<rparr>;
       fetch = (\<lambda>u. profile u ''Granada, Nicaragua'')
   in \<not> lockReadAddUser self
      \<and> excluded self = Some {''bot''}
      \<and> excludedLocations self = Some {''Nicaragua''}
      \<and> ''ana'' \<notin> myusers self
      \<and> ''ana'' \<notin> {''bot''}
      \<and> location_excluded {''Nicaragua''} (location (GitHubUser_getData fetch ''ana''))
      \<and> (\<exists>self'. addUser fetch ''ana'' self = (Returned, self')
             \<and> dataUsers self' = dataUsers self
             \<and> ''ana'' \<in> myusers self'
             \<and> detail_requests self' = detail_requests self @ [''ana'']
             \<and> addUser fetch ''ana'' self' = (Returned, self')
             \<and> (\<forall>later. records_of ''ana'' (addUsers fetch later self') = records_of ''ana'' self
                   \<and> requests_for ''ana'' (addUsers fetch later self')
                       = requests_for ''ana'' self @ [''ana'']))"
proof -
  let ?self = "(blank ''id'' ''secret'')
                 \<lparr>excluded := Some {''bot''}, excludedLocations := Some {''Nicaragua''}\<rparr>"
  let ?fetch = "\<lambda>u. profile u ''Granada, Nicaragua''"
  have h1: "\<not> lockReadAddUser ?self" by (simp add: blank_def)
  have h2: "excluded ?self = Some {''bot''}" by simp
  have h3: "excludedLocations ?self = Some {''Nicaragua''}" by simp
  have h4: "''ana'' \<notin> myusers ?self" by (simp add: blank_def)
  have h5: "''ana'' \<notin> {''bot''}" by simp
  have h6: "location_excluded {''Nicaragua''} (location (GitHubUser_getData ?fetch ''ana''))"
    by (simp add: location_excluded_def GitHubUser_getData_def profile_def)
  show ?thesis
    unfolding Let_def
    using h1 h2 h3 h4 h5 h6 addUser_excluded_location [OF h1 h2 h3 h4 h5 h6] by blast
qed

text \<open>
  A name stays in \<open>_myusers\<close> once it is there, and a call for a name that is there
  returns with the object unchanged.
\<close>

lemma addUser_myusers_grow:
  "myusers self \<subseteq> myusers (snd (addUser fetch new_user self))"
  by (auto simp: addUser_def Let_def split: option.splits)

lemma addUser_seen:
  "\<not> lockReadAddUser self \<Longrightarrow> new_user \<in> myusers self \<Longrightarrow>
   addUser fetch new_user self = (Returned, self)"
  by (simp add: addUser_def Let_def)

text \<open>
  Calls of \<open>_addUser\<close> that run one after the other never create a second record for
  a name.
\<close>

lemma addUser_keeps_unique:
  "records_unique self \<Longrightarrow> records_unique (snd (addUser fetch new_user self))"
  by (auto simp: records_unique_def addUser_def Let_def GitHubUser_getData_def
           split: option.splits)

section \<open>Properties of the worker threads\<close>

text \<open>
  The function \<open>addUser\<close> is what a thread does from the first line of \<open>_addUser\<close>
  when no other thread runs in between.
\<close>

lemma addUser_blocked_steps:
  "lockReadAddUser self \<Longrightarrow> steps fetch n (AddAcquire u, self) = (AddAcquire u, self)"
  by (induction n) auto

lemma addUser_refines_steps:
  "case addUser fetch u self of
     (Returned, self') \<Rightarrow> steps fetch 3 (AddAcquire u, self) = (LoopTest, self')
                          \<or> steps fetch 6 (AddAcquire u, self) = (LoopTest, self')
   | (Raised e, self') \<Rightarrow> steps fetch 2 (AddAcquire u, self) = (Crashed e, self')
                          \<or> steps fetch 6 (AddAcquire u, self) = (Crashed e, self')
   | (Blocked, self') \<Rightarrow>
       self' = self \<and> (\<forall>n. steps fetch n (AddAcquire u, self) = (AddAcquire u, self))"
  by (auto simp: addUser_def Let_def numeral_eq_Suc addUser_blocked_steps split: option.splits)

text \<open>
  Whatever the schedule, the exclusion sets are respected: no detail request for an
  excluded name, and no record with an excluded name or an excluded location.
\<close>

lemma list_all_update:
  "list_all P xs \<Longrightarrow> P y \<Longrightarrow> list_all P (xs[i := y])"
  by (metis list_all_length length_list_update nth_list_update_eq nth_list_update_neq)

lemma list_all_nth: "list_all P xs \<Longrightarrow> i < length xs \<Longrightarrow> P (xs ! i)"
  by (simp add: list_all_length)

lemma processUsers_step_respects:
  assumes "excluded self = Some ex" "excludedLocations self = Some exl"
    and "list_all (\<lambda>u. u \<notin> ex) (detail_requests self)"
    and "list_all (\<lambda>r. name r \<notin> ex \<and> \<not> location_excluded exl (location r)) (dataUsers self)"
    and "past_test pc \<notin> Some ` ex"
    and "processUsers_step fetch pc self = (pc', self')"
  shows "excluded self' = Some ex \<and> excludedLocations self' = Some exl
      \<and> list_all (\<lambda>u. u \<notin> ex) (detail_requests self')
      \<and> list_all (\<lambda>r. name r \<notin> ex \<and> \<not> location_excluded exl (location r)) (dataUsers self')
      \<and> past_test pc' \<notin> Some ` ex"
  using assms
  by (cases pc) (auto simp: GitHubUser_getData_def split: if_splits list.splits)

lemma pool_step_respects:
  "exclusions_respected ex exl p \<Longrightarrow> exclusions_respected ex exl (pool_step fetch ev p)"
proof (cases ev)
  case (Worker i)
  assume inv: "exclusions_respected ex exl p"
  show ?thesis
  proof (cases "i < length (workers p)")
    case False
    then show ?thesis using inv Worker by simp
  next
    case True
    obtain pc' self' where st: "processUsers_step fetch (workers p ! i) (shared p) = (pc', self')"
      by (cases "processUsers_step fetch (workers p ! i) (shared p)")
    have pi: "past_test (workers p ! i) \<notin> Some ` ex"
    proof -
      have "list_all (\<lambda>pc. past_test pc \<notin> Some ` ex) (workers p)"
        using inv by (simp add: exclusions_respected_def)
      from list_all_nth [OF this True] show ?thesis .
    qed
    have "excluded self' = Some ex \<and> excludedLocations self' = Some exl
      \<and> list_all (\<lambda>u. u \<notin> ex) (detail_requests self')
      \<and> list_all (\<lambda>r. name r \<notin> ex \<and> \<not> location_excluded exl (location r)) (dataUsers self')
      \<and> past_test pc' \<notin> Some ` ex"
      using processUsers_step_respects [OF _ _ _ _ pi st] inv
      by (simp add: exclusions_respected_def)
    then show ?thesis
      using inv Worker True st by (simp add: exclusions_respected_def list_all_update)
  qed
next
  case (Put login)
  assume "exclusions_respected ex exl p"
  then show ?thesis using Put by (simp add: exclusions_respected_def)
next
  case Finish
  assume "exclusions_respected ex exl p"
  then show ?thesis using Finish by (simp add: exclusions_respected_def)
qed

lemma run_respects:
  "exclusions_respected ex exl p \<Longrightarrow> exclusions_respected ex exl (run fetch schedule p)"
  unfolding run_def by (induction schedule arbitrary: p) (simp_all add: pool_step_respects)

lemma launchThreads_respects:
  "excluded self = Some ex \<Longrightarrow> excludedLocations self = Some exl \<Longrightarrow>
   dataUsers self = [] \<Longrightarrow> detail_requests self = [] \<Longrightarrow>
   exclusions_respected ex exl (launchThreads n self)"
  by (simp add: exclusions_respected_def launchThreads_def list_all_length)

lemma run_launchThreads_respects:
  assumes "excluded self = Some ex" and "excludedLocations self = Some exl"
    and "dataUsers self = []" and "detail_requests self = []"
  shows "list_all (\<lambda>u. u \<notin> ex)
           (detail_requests (shared (run fetch schedule (launchThreads n self))))"
    and "list_all (\<lambda>r. name r \<notin> ex \<and> \<not> location_excluded exl (location r))
           (dataUsers (shared (run fetch schedule (launchThreads n self))))"
  using run_respects [OF launchThreads_respects [OF assms], of fetch schedule n]
  by (simp_all add: exclusions_respected_def)

text \<open>
  Claim C3. In \<open>_addUser\<close> the lock is released between the membership test and the
  addition to \<open>_myusers\<close>. Two workers take the name \<open>a\<close> from the queue. After the
  first has run up to the addition, it has passed the test, the lock is free and \<open>a\<close>
  is not in \<open>_myusers\<close>; the second then passes the test too, and both go on to the
  detail request for \<open>a\<close>.
\<close>

theorem addUser_lock_released_before_add:
  "case init id (Some ''id'') (Some ''secret'') None (Some ''Granada'') None None None of
     Inl e \<Rightarrow> False
   | Inr self \<Rightarrow>
       (let p = run fetch ([Put ''a'', Put ''a''] @ replicate 8 (Worker 0))
                  (launchThreads 2 self);
            q = run fetch (replicate 8 (Worker 1) @ [Worker 0, Worker 0, Worker 1, Worker 1]) p
        in workers p = [AddInsert ''a'', Wait]
           \<and> \<not> lockReadAddUser (shared p)
           \<and> ''a'' \<notin> myusers (shared p)
           \<and> workers q = [AddFilter ''a'', AddFilter ''a'']
           \<and> detail_requests (shared q) = [''a'', ''a''])"
  unfolding Let_def
  by (simp add: init_plain run_def launchThreads_def numeral_eq_Suc)

text \<open>
  Claim C5. A single worker, one name in the queue, \<open>_fin\<close> never set: the worker
  processes the name, finds the queue empty at its next \<open>get\<close>, and returns. A name
  put afterwards stays in the queue.
\<close>

theorem processUsers_exits_before_fin:
  "case init id (Some ''id'') (Some ''secret'') None (Some ''Granada'') None None None of
     Inl e \<Rightarrow> False
   | Inr self \<Rightarrow>
       (let p = run fetch ([Put ''a''] @ replicate 15 (Worker 0)) (launchThreads 1 self);
            q = run fetch ([Put ''b''] @ replicate 15 (Worker 0)) p
        in workers p = [Exited] \<and> \<not> fin (shared p)
           \<and> workers q = [Exited] \<and> \<not> fin (shared q) \<and> names (shared q) = [''b''])"
  unfolding Let_def
  by (simp add: init_plain run_def launchThreads_def numeral_eq_Suc location_excluded_def)

text \<open>
  Claim C6. The name \<open>a\<close> is fed twice to two workers and no name is excluded. Under
  the schedule of C3 both workers append a record for \<open>a\<close>: when both have returned,
  the result list holds two records with that name.
\<close>

theorem pipeline_duplicate_record:
  "case init id (Some ''id'') (Some ''secret'') None (Some ''Granada'') None None None of
     Inl e \<Rightarrow> False
   | Inr self \<Rightarrow>
       (let p = run fetch
                  ([Put ''a'', Put ''a''] @ replicate 8 (Worker 0) @ replicate 8 (Worker 1)
                   @ replicate 3 (Worker 0) @ replicate 3 (Worker 1)
                   @ [Finish, Worker 0, Worker 1])
                  (launchThreads 2 self)
        in workers p = [Exited, Exited]
           \<and> map name (dataUsers (shared p)) = [''a'', ''a''])"
  unfolding Let_def
  by (simp add: init_plain run_def launchThreads_def numeral_eq_Suc location_excluded_def
        GitHubUser_getData_def)

text \<open>
  Claim C8. The location-exclusion set holds \<open>Nicaragua\<close>, the detail record of \<open>a\<close>
  has the location \<open>Granada, Nicaragua\<close>, and \<open>a\<close> is fed twice to two workers.
  Under the schedule of C3 no record for \<open>a\<close> is appended and \<open>a\<close> is in
  \<open>_myusers\<close>, but the second occurrence is enriched again: when both workers have
  returned, two detail requests have been made for \<open>a\<close>.
\<close>

theorem excluded_location_enriched_twice:
  "case init id (Some ''id'') (Some ''secret'') None (Some ''Granada'') None None
          (Some [''Nicaragua'']) of
     Inl e \<Rightarrow> False
   | Inr self \<Rightarrow>
       (let p = run (\<lambda>u. profile u ''Granada, Nicaragua'')
                  ([Put ''a'', Put ''a''] @ replicate 8 (Worker 0) @ replicate 8 (Worker 1)
                   @ replicate 3 (Worker 0) @ replicate 3 (Worker 1)
                   @ [Finish, Worker 0, Worker 1])
                  (launchThreads 2 self)
        in workers p = [Exited, Exited]
           \<and> dataUsers (shared p) = []
           \<and> ''a'' \<in> myusers (shared p)
           \<and> detail_requests (shared p) = [''a'', ''a''])"
  unfolding Let_def
  by (simp add: init_excluded_locations run_def launchThreads_def numeral_eq_Suc
        location_excluded_def GitHubUser_getData_def profile_def)

section \<open>Properties of \<open>_readAPI\<close>\<close>

lemma readAPI_loop_same_url:
  "Request u \<in> set (fst (readAPI_loop loads url response answers)) \<Longrightarrow> u = url"
  by (induction loads url response answers rule: readAPI_loop.induct)
     (auto simp: after_def split: if_splits option.splits)

text \<open>
  At any iteration of the loop, when the request is answered by an error with a status
  other than 200 whose reset time is not before the clock's reading, \<open>_readAPI\<close>
  sleeps \<open>reset - now\<close> seconds and then requests the same URL again.
\<close>

lemma readAPI_rate_limit_wait:
  assumes "now_sec \<le> reset" and "code \<noteq> 200"
  shows "\<exists>trace result.
           readAPI_loop loads url response (HTTPError code (Some reset) now_sec # answer # answers)
             = (Request url # Sleep (reset - now_sec) # Request url # trace, result)"
  using assms by (cases answer) (auto simp: after_def split: option.splits)

lemma readAPI_rate_limit_wait_example:
  "(10::int) \<le> 15 \<and> (403::int) \<noteq> 200
   \<and> (\<exists>trace result.
         readAPI_loop Some ''u'' None [HTTPError 403 (Some 15) 10, HTTPResponse 200 ''{}'']
           = (Request ''u'' # Sleep (15 - 10) # Request ''u'' # trace, result))"
proof -
  have h1: "(10::int) \<le> 15" by simp
  have h2: "(403::int) \<noteq> 200" by simp
  show ?thesis
    using h1 h2
      readAPI_rate_limit_wait [OF h1 h2, of Some "''u''" None "HTTPResponse 200 ''{}''" "[]"]
    by blast
qed

text \<open>
  Claim C4. The first request is answered by a 403 whose reset time, 5, is before the
  clock's reading, 10. The wait is not clamped to zero: \<open>time.sleep\<close> is called with
  \<open>-5\<close> and raises. The method ends with \<open>ValueError\<close> after its first request,
  with no sleep and no second request, although the next answer would have been a 200.
\<close>

theorem readAPI_negative_wait_raises:
  "readAPI Some ''u'' [HTTPError 403 (Some 5) 10, HTTPResponse 200 ''{}'']
     = ([Request ''u''], Some (Inl ValueError))"
  by (simp add: readAPI_def)

section \<open>Properties of \<open>getSortUsers\<close>\<close>

lemma getSortUsers_respositories:
  "getSortUsers ''respositories'' self
     = (Some (sort_reverse numberOfRepositories (dataUsers self)),
        self\<lparr>dataUsers := sort_reverse numberOfRepositories (dataUsers self)\<rparr>)"
  by (simp add: getSortUsers_def sorted_by_def)

text \<open>
  Claim C10. Called with \<open>"repositories"\<close>, \<open>getSortUsers\<close> returns \<open>None\<close> and leaves
  the object, and so the stored list of users, as it was: the branch that sorts by the
  number of repositories tests for \<open>"respositories"\<close>.
\<close>

theorem getSortUsers_repositories:
  "getSortUsers ''repositories'' self = (None, self)"
  by (simp add: getSortUsers_def)

end
